theory Spec2Isabelle
  imports Main "HOL-Library.Sublist"
begin

section \<open>Python values, exceptions and the observable world\<close>

text \<open>
  The module \<^verbatim>\<open>src/core/poster.py\<close> consumes the decoded JSON answer of the PT-Gen
  service. A decoded JSON value is \<^verbatim>\<open>None\<close>, a bool, an int, a float, a str, a list or
  a dict with str keys. A dict is kept as an association list read with \<open>map_of\<close>. A
  finite float is \<open>m * 2 ^ e\<close>; the non-finite floats are truthy values that are not
  mappings, exactly like any non-zero finite float, and are not listed separately.
  One \<open>char\<close> stands for one character of a Python str.
\<close>

datatype pyval =
    PNone
  | PBool bool
  | PInt int
  | PFloat int int
  | PStr string
  | PList "pyval list"
  | PDict "(string \<times> pyval) list"

type_synonym pydict = "(string \<times> pyval) list"

text \<open>Python truth value testing (\<^verbatim>\<open>if x:\<close>, \<^verbatim>\<open>not x\<close>) on these values.\<close>

fun truthy :: "pyval \<Rightarrow> bool" where
  "truthy PNone = False"
| "truthy (PBool b) = b"
| "truthy (PInt i) = (i \<noteq> 0)"
| "truthy (PFloat m e) = (m \<noteq> 0)"
| "truthy (PStr s) = (s \<noteq> [])"
| "truthy (PList xs) = (xs \<noteq> [])"
| "truthy (PDict kvs) = (kvs \<noteq> [])"

text \<open>
  The exception classes the handlers of the module tell apart. In \<^verbatim>\<open>requests\<close>,
  \<^verbatim>\<open>Timeout\<close> derives from \<^verbatim>\<open>RequestException\<close>, which derives from \<^verbatim>\<open>IOError\<close>
  (an alias of \<^verbatim>\<open>OSError\<close>); every class here derives from \<^verbatim>\<open>Exception\<close>.
  \<open>OtherException\<close> stands for any further subclass of \<^verbatim>\<open>Exception\<close>. Asynchronous
  interpreter signals (\<^verbatim>\<open>KeyboardInterrupt\<close>, \<^verbatim>\<open>SystemExit\<close>) are outside the model.
  \<open>exn_msg\<close> is what \<^verbatim>\<open>str(e)\<close> gives.
\<close>

datatype exn_class = Timeout | RequestException | IOError | TypeError | KeyError | OtherException

record pyexn =
  exn_class :: exn_class
  exn_msg :: string

datatype handler_class = HTimeout | HRequestException | HIOError | HException

text \<open>\<^verbatim>\<open>isinstance(e, C)\<close> for the classes named in \<^verbatim>\<open>except\<close> clauses.\<close>

fun isinstance :: "pyexn \<Rightarrow> handler_class \<Rightarrow> bool" where
  "isinstance e HTimeout = (exn_class e = Timeout)"
| "isinstance e HRequestException = (exn_class e = Timeout \<or> exn_class e = RequestException)"
| "isinstance e HIOError =
     (exn_class e = Timeout \<or> exn_class e = RequestException \<or> exn_class e = IOError)"
| "isinstance e HException = True"

definition raise_exn :: "exn_class \<Rightarrow> string \<Rightarrow> pyexn" where
  "raise_exn c m = \<lparr>exn_class = c, exn_msg = m\<rparr>"

text \<open>
  What the run leaves behind: the file system (a path holds a regular file with its
  bytes, or a directory), the HTTP requests issued, and the lines printed. A printed
  line is kept as the pieces of its f-string: literal text and formatted values.
  Writing a line to the standard output is taken to succeed always.
\<close>

datatype node = File string | Dir

datatype piece = S string | V pyval

record request =
  req_url :: pyval
  req_headers :: "(string \<times> string) list"
  req_timeout :: nat
  req_stream :: bool

record world =
  fs :: "string \<rightharpoonup> node"
  requests :: "request list"
  stdout :: "piece list list"

definition print :: "piece list \<Rightarrow> world \<Rightarrow> world" where
  "print line w = w\<lparr>stdout := stdout w @ [line]\<rparr>"

section \<open>Field extractor\<close>

definition possible_fields :: "string list" where
  "possible_fields = [''poster'', ''img'', ''image'', ''cover'', ''posterUrl'']"

text \<open>\<^verbatim>\<open>needle in haystack\<close> on two strs: substring test.\<close>

fun str_contains :: "string \<Rightarrow> string \<Rightarrow> bool" where
  "str_contains [] needle = (needle = [])"
| "str_contains (c # cs) needle = (prefix needle (c # cs) \<or> str_contains cs needle)"

text \<open>
  \<^verbatim>\<open>field in x\<close> for a str \<open>field\<close>: key membership on a dict, substring test on a str,
  element membership on a list, \<^verbatim>\<open>TypeError\<close> on everything else.
\<close>

fun py_contains :: "pyval \<Rightarrow> string \<Rightarrow> pyexn + bool" where
  "py_contains (PDict kvs) field = Inr (map_of kvs field \<noteq> None)"
| "py_contains (PStr s) field = Inr (str_contains s field)"
| "py_contains (PList xs) field = Inr (PStr field \<in> set xs)"
| "py_contains PNone field =
     Inl (raise_exn TypeError ''argument of type 'NoneType' is not iterable'')"
| "py_contains (PBool b) field =
     Inl (raise_exn TypeError ''argument of type 'bool' is not iterable'')"
| "py_contains (PInt i) field =
     Inl (raise_exn TypeError ''argument of type 'int' is not iterable'')"
| "py_contains (PFloat m e) field =
     Inl (raise_exn TypeError ''argument of type 'float' is not iterable'')"

text \<open>\<^verbatim>\<open>x[field]\<close> for a str \<open>field\<close>.\<close>

fun py_getitem :: "pyval \<Rightarrow> string \<Rightarrow> pyexn + pyval" where
  "py_getitem (PDict kvs) field =
     (case map_of kvs field of
        Some v \<Rightarrow> Inr v
      | None \<Rightarrow> Inl (raise_exn KeyError field))"
| "py_getitem (PStr s) field =
     Inl (raise_exn TypeError ''string indices must be integers'')"
| "py_getitem (PList xs) field =
     Inl (raise_exn TypeError ''list indices must be integers or slices, not str'')"
| "py_getitem PNone field =
     Inl (raise_exn TypeError ''object is not subscriptable'')"
| "py_getitem (PBool b) field =
     Inl (raise_exn TypeError ''object is not subscriptable'')"
| "py_getitem (PInt i) field =
     Inl (raise_exn TypeError ''object is not subscriptable'')"
| "py_getitem (PFloat m e) field =
     Inl (raise_exn TypeError ''object is not subscriptable'')"

text \<open>
  The first loop of \<^verbatim>\<open>get_poster_url_from_data\<close>, over the argument itself, which is a
  dict: \<^verbatim>\<open>if field in data and data[field]: return data[field]\<close>. The result is the
  field that matched and its value, or \<open>None\<close> when the loop runs to its end.
\<close>

fun scan_top :: "pydict \<Rightarrow> string list \<Rightarrow> (string \<times> pyval) option" where
  "scan_top d [] = None"
| "scan_top d (field # rest) =
     (case map_of d field of
        Some v \<Rightarrow> if truthy v then Some (field, v) else scan_top d rest
      | None \<Rightarrow> scan_top d rest)"

text \<open>
  The second loop, over \<^verbatim>\<open>data['data']\<close>, whose type nothing has checked:
  \<^verbatim>\<open>if field in data['data'] and data['data'][field]: return data['data'][field]\<close>.
\<close>

fun scan_nested :: "pyval \<Rightarrow> string list \<Rightarrow> pyexn + (string \<times> pyval) option" where
  "scan_nested sub [] = Inr None"
| "scan_nested sub (field # rest) =
     (case py_contains sub field of
        Inl e \<Rightarrow> Inl e
      | Inr False \<Rightarrow> scan_nested sub rest
      | Inr True \<Rightarrow>
          (case py_getitem sub field of
             Inl e \<Rightarrow> Inl e
           | Inr v \<Rightarrow> if truthy v then Inr (Some (field, v)) else scan_nested sub rest))"

definition get_poster_url_from_data :: "pydict \<Rightarrow> world \<Rightarrow> (pyexn + pyval) \<times> world" where
  "get_poster_url_from_data data w =
     (case scan_top data possible_fields of
        Some (field, poster_url) \<Rightarrow>
          (Inr poster_url,
           print [S ''Found poster URL in field \"'', S field, S ''\": '', V poster_url] w)
      | None \<Rightarrow>
          (case map_of data ''data'' of
             Some sub \<Rightarrow>
               (case scan_nested sub possible_fields of
                  Inl e \<Rightarrow> (Inl e, w)
                | Inr (Some (field, poster_url)) \<Rightarrow>
                    (Inr poster_url,
                     print [S ''Found poster URL in nested field \"data.'', S field,
                            S ''\": '', V poster_url] w)
                | Inr None \<Rightarrow>
                    (Inr (PStr []), print [S ''No poster URL found in PT-Gen response''] w))
           | None \<Rightarrow>
               (Inr (PStr []), print [S ''No poster URL found in PT-Gen response''] w)))"

section \<open>Strings and paths\<close>

text \<open>\<^verbatim>\<open>str(n)\<close> for an int: decimal digits, with a sign for negative numbers.\<close>

definition digit_char :: "nat \<Rightarrow> char" where
  "digit_char d = ''0123456789'' ! d"

function str_nat :: "nat \<Rightarrow> string" where
  "str_nat n = (if n < 10 then [digit_char n] else str_nat (n div 10) @ [digit_char (n mod 10)])"
  by pat_completeness auto
termination
  by (relation "measure (\<lambda>n. n)") auto

definition str_int :: "int \<Rightarrow> string" where
  "str_int i = (if i < 0 then CHR ''-'' # str_nat (nat (- i)) else str_nat (nat i))"

definition startswith :: "string \<Rightarrow> string \<Rightarrow> bool" where
  "startswith s p = prefix p s"

definition endswith :: "string \<Rightarrow> string \<Rightarrow> bool" where
  "endswith s p = suffix p s"

text \<open>
  Python slicing \<^verbatim>\<open>s[i:j]\<close> with step 1: a negative index counts from the end, and
  both indices are clamped to \<open>0 .. len(s)\<close>.
\<close>

definition py_index :: "nat \<Rightarrow> int \<Rightarrow> nat" where
  "py_index n i = (if i < 0 then nat (max 0 (int n + i)) else min n (nat i))"

definition py_slice :: "string \<Rightarrow> int \<Rightarrow> int \<Rightarrow> string" where
  "py_slice s i j = drop (py_index (length s) i) (take (py_index (length s) j) s)"

text \<open>
  \<^verbatim>\<open>os.path.dirname\<close> and \<^verbatim>\<open>os.path.join\<close> (two arguments) as \<^verbatim>\<open>posixpath\<close> defines
  them: the head is everything up to and including the last slash, with trailing slashes
  removed unless the head consists of slashes only.
\<close>

definition os_path_dirname :: "string \<Rightarrow> string" where
  "os_path_dirname p =
     (let head = rev (dropWhile (\<lambda>c. c \<noteq> CHR ''/'') (rev p))
      in if head \<noteq> [] \<and> head \<noteq> replicate (length head) (CHR ''/'')
         then rev (dropWhile (\<lambda>c. c = CHR ''/'') (rev head))
         else head)"

definition os_path_join :: "string \<Rightarrow> string \<Rightarrow> string" where
  "os_path_join a b =
     (if startswith b ''/'' then b
      else if a = [] \<or> endswith a ''/'' then a @ b
      else a @ ''/'' @ b)"

section \<open>Collaborators outside the module\<close>

text \<open>
  An HTTP response as \<^verbatim>\<open>download_poster\<close> reads it: the status code, and the chunks
  \<^verbatim>\<open>iter_content\<close> yields, after which the stream either ends or raises.
\<close>

record response =
  status_code :: int
  chunks :: "string list"
  stream_error :: "pyexn option"

text \<open>
  Everything the module calls and does not define is a parameter: the answer of the
  network to a request, whether a file-system call is refused by the operating system
  (\<open>Some e\<close>: it raises \<open>e\<close>), the image-hosting uploader \<^verbatim>\<open>upload_picture\<close> of
  \<^verbatim>\<open>src/core/picturebed.py\<close> (returns a pair or raises, and may change the world), the
  system's temporary directory, and \<^verbatim>\<open>id\<close>.
\<close>

record env =
  http_get :: "request \<Rightarrow> pyexn + response"
  makedirs_error :: "string \<Rightarrow> pyexn option"
  open_error :: "string \<Rightarrow> pyexn option"
  write_error :: "string \<Rightarrow> string \<Rightarrow> pyexn option"
  remove_error :: "string \<Rightarrow> pyexn option"
  upload_picture :: "string \<Rightarrow> string \<Rightarrow> string \<Rightarrow> world \<Rightarrow> (pyexn + bool \<times> string) \<times> world"
  gettempdir :: "pyexn + string"
  obj_id :: "pyval \<Rightarrow> nat"

definition os_path_exists :: "world \<Rightarrow> string \<Rightarrow> bool" where
  "os_path_exists w p = (fs w p \<noteq> None)"

text \<open>
  \<^verbatim>\<open>os.makedirs(name, exist_ok=True)\<close>. On the empty name the library calls
  \<^verbatim>\<open>mkdir('')\<close>, which fails with \<^verbatim>\<open>FileNotFoundError\<close>, and re-raises because
  \<^verbatim>\<open>isdir('')\<close> is false. Otherwise the call is refused by the system, or fails because
  a regular file has the name, or leaves a directory there. Only the named directory is
  recorded, not its ancestors.
\<close>

definition os_makedirs :: "env \<Rightarrow> string \<Rightarrow> world \<Rightarrow> (pyexn + unit) \<times> world" where
  "os_makedirs env name w =
     (if name = [] then
        (Inl (raise_exn IOError (''[Errno 2] No such file or directory: '' @ [CHR 0x27, CHR 0x27])), w)
      else
        (case makedirs_error env name of
           Some e \<Rightarrow> (Inl e, w)
         | None \<Rightarrow>
             (case fs w name of
                Some (File c) \<Rightarrow> (Inl (raise_exn IOError ''[Errno 17] File exists''), w)
              | Some Dir \<Rightarrow> (Inr (), w)
              | None \<Rightarrow> (Inr (), w\<lparr>fs := (fs w)(name \<mapsto> Dir)\<rparr>))))"

text \<open>\<^verbatim>\<open>open(path, 'wb')\<close>: creates the file or truncates it.\<close>

definition open_wb :: "env \<Rightarrow> string \<Rightarrow> world \<Rightarrow> (pyexn + unit) \<times> world" where
  "open_wb env path w =
     (case open_error env path of
        Some e \<Rightarrow> (Inl e, w)
      | None \<Rightarrow>
          (case fs w path of
             Some Dir \<Rightarrow> (Inl (raise_exn IOError ''[Errno 21] Is a directory''), w)
           | Some (File c) \<Rightarrow> (Inr (), w\<lparr>fs := (fs w)(path \<mapsto> File [])\<rparr>)
           | None \<Rightarrow> (Inr (), w\<lparr>fs := (fs w)(path \<mapsto> File [])\<rparr>)))"

text \<open>\<^verbatim>\<open>f.write(chunk)\<close> on the file opened at \<open>path\<close>: appends, unless refused.\<close>

definition file_write :: "env \<Rightarrow> string \<Rightarrow> string \<Rightarrow> world \<Rightarrow> (pyexn + unit) \<times> world" where
  "file_write env path chunk w =
     (case fs w path of
        Some (File c) \<Rightarrow>
          (case write_error env path c of
             Some e \<Rightarrow> (Inl e, w)
           | None \<Rightarrow> (Inr (), w\<lparr>fs := (fs w)(path \<mapsto> File (c @ chunk))\<rparr>))
      | Some Dir \<Rightarrow> (Inr (), w)
      | None \<Rightarrow> (Inr (), w))"

text \<open>\<^verbatim>\<open>os.remove(path)\<close>.\<close>

definition os_remove :: "env \<Rightarrow> string \<Rightarrow> world \<Rightarrow> (pyexn + unit) \<times> world" where
  "os_remove env path w =
     (case remove_error env path of
        Some e \<Rightarrow> (Inl e, w)
      | None \<Rightarrow>
          (case fs w path of
             Some (File c) \<Rightarrow> (Inr (), w\<lparr>fs := (fs w)(path := None)\<rparr>)
           | Some Dir \<Rightarrow> (Inl (raise_exn IOError ''[Errno 21] Is a directory''), w)
           | None \<Rightarrow> (Inl (raise_exn IOError ''[Errno 2] No such file or directory''), w)))"

section \<open>Downloader\<close>

definition headers :: "(string \<times> string) list" where
  "headers =
     [(''User-Agent'', ''Mozilla/5.0 (Macintosh; Intel Mac OS X 10_15_7) AppleWebKit/537.36 (KHTML, like Gecko) Chrome/143.0.0.0 Safari/537.36''),
      (''Accept'', ''image/avif,image/webp,image/apng,image/svg+xml,image/*,*/*;q=0.8''),
      (''Accept-Language'', ''en-US,en;q=0.9,zh-CN;q=0.8,zh-TW;q=0.7,zh;q=0.6''),
      (''Referer'', ''https://movie.douban.com/''),
      (''Cache-Control'', ''no-cache''),
      (''Pragma'', ''no-cache''),
      (''Sec-Fetch-Dest'', ''image''),
      (''Sec-Fetch-Mode'', ''no-cors''),
      (''Sec-Fetch-Site'', ''cross-site'')]"

text \<open>\<^verbatim>\<open>requests.get(poster_url, headers=headers, timeout=30, stream=True)\<close>.\<close>

definition requests_get :: "env \<Rightarrow> pyval \<Rightarrow> world \<Rightarrow> (pyexn + response) \<times> world" where
  "requests_get env url w =
     (let rq = \<lparr>req_url = url, req_headers = headers, req_timeout = 30, req_stream = True\<rparr>
      in (http_get env rq, w\<lparr>requests := requests w @ [rq]\<rparr>))"

text \<open>The loop \<^verbatim>\<open>for chunk in ...: if chunk: f.write(chunk)\<close>.\<close>

fun write_chunks :: "env \<Rightarrow> string \<Rightarrow> string list \<Rightarrow> world \<Rightarrow> (pyexn + unit) \<times> world" where
  "write_chunks env path [] w = (Inr (), w)"
| "write_chunks env path (chunk # rest) w =
     (if chunk \<noteq> [] then
        (case file_write env path chunk w of
           (Inl e, w1) \<Rightarrow> (Inl e, w1)
         | (Inr u, w1) \<Rightarrow> write_chunks env path rest w1)
      else write_chunks env path rest w)"

text \<open>The \<^verbatim>\<open>with open(save_path, 'wb') as f:\<close> block.\<close>

definition save_stream :: "env \<Rightarrow> string \<Rightarrow> response \<Rightarrow> world \<Rightarrow> (pyexn + unit) \<times> world" where
  "save_stream env save_path resp w =
     (case open_wb env save_path w of
        (Inl e, w1) \<Rightarrow> (Inl e, w1)
      | (Inr u, w1) \<Rightarrow>
          (case write_chunks env save_path (chunks resp) w1 of
             (Inl e, w2) \<Rightarrow> (Inl e, w2)
           | (Inr u, w2) \<Rightarrow>
               (case stream_error resp of
                  Some e \<Rightarrow> (Inl e, w2)
                | None \<Rightarrow> (Inr (), w2))))"

text \<open>The body of the \<^verbatim>\<open>try\<close> of \<^verbatim>\<open>download_poster\<close>; \<open>Inl e\<close>: it raised \<open>e\<close>.\<close>

definition download_poster_try ::
  "env \<Rightarrow> pyval \<Rightarrow> string \<Rightarrow> world \<Rightarrow> (pyexn + bool \<times> string) \<times> world" where
  "download_poster_try env poster_url save_path w =
     (if \<not> truthy poster_url then (Inr (False, ''Poster URL is empty''), w)
      else
        (case requests_get env poster_url
                (print [S ''Starting poster download from: '', V poster_url] w) of
           (Inl e, w1) \<Rightarrow> (Inl e, w1)
         | (Inr resp, w1) \<Rightarrow>
             if status_code resp \<noteq> 200 then
               (Inr (False, ''Failed to download poster, status code: '' @ str_int (status_code resp)),
                w1)
             else
               (case os_makedirs env (os_path_dirname save_path) w1 of
                  (Inl e, w2) \<Rightarrow> (Inl e, w2)
                | (Inr u, w2) \<Rightarrow>
                    (case save_stream env save_path resp w2 of
                       (Inl e, w3) \<Rightarrow> (Inl e, w3)
                     | (Inr u, w3) \<Rightarrow>
                         (Inr (True, save_path),
                          print [S ''Poster downloaded successfully to: '', S save_path] w3)))))"

text \<open>
  \<^verbatim>\<open>download_poster\<close>: the body with its four \<^verbatim>\<open>except\<close> clauses in the order of the
  source; an exception no clause matches would propagate (\<open>Inl\<close>).
\<close>

definition download_poster ::
  "env \<Rightarrow> pyval \<Rightarrow> string \<Rightarrow> world \<Rightarrow> (pyexn + bool \<times> string) \<times> world" where
  "download_poster env poster_url save_path w =
     (case download_poster_try env poster_url save_path w of
        (Inr r, w1) \<Rightarrow> (Inr r, w1)
      | (Inl e, w1) \<Rightarrow>
          if isinstance e HTimeout then
            (Inr (False, ''Poster download timeout (30s)''),
             print [S ''Poster download timeout''] w1)
          else if isinstance e HRequestException then
            (Inr (False, ''Poster download request error: '' @ exn_msg e),
             print [S ''Poster download request error: '', S (exn_msg e)] w1)
          else if isinstance e HIOError then
            (Inr (False, ''Failed to save poster file: '' @ exn_msg e),
             print [S ''Failed to save poster file: '', S (exn_msg e)] w1)
          else if isinstance e HException then
            (Inr (False, ''Unexpected error: '' @ exn_msg e),
             print [S ''Unexpected error during poster download: '', S (exn_msg e)] w1)
          else (Inl e, w1))"

section \<open>Orchestrator\<close>

text \<open>The statements of the \<^verbatim>\<open>try\<close> of \<^verbatim>\<open>process_poster\<close> after the temp path is set.\<close>

definition process_poster_steps ::
  "env \<Rightarrow> pyval \<Rightarrow> string \<Rightarrow> string \<Rightarrow> string \<Rightarrow> world \<Rightarrow> (pyexn + bool \<times> string) \<times> world" where
  "process_poster_steps env poster_url picture_bed_api_url picture_bed_api_token temp_file_path w =
     (case download_poster env poster_url temp_file_path
             (print [S ''Temp file path: '', S temp_file_path]
               (print [S ''Poster URL: '', V poster_url]
                 (print [S ''=== Starting poster processing ===''] w))) of
        (Inl e, w1) \<Rightarrow> (Inl e, w1)
      | (Inr (download_success, download_result), w1) \<Rightarrow>
          if \<not> download_success then
            (Inr (False, ''Failed to download poster: '' @ download_result), w1)
          else
            (case upload_picture env picture_bed_api_url picture_bed_api_token temp_file_path
                    (print [S ''Uploading poster to image hosting service...''] w1) of
               (Inl e, w2) \<Rightarrow> (Inl e, w2)
             | (Inr (upload_success, upload_result), w2) \<Rightarrow>
                 if \<not> upload_success then
                   (Inr (False, ''Failed to upload poster: '' @ upload_result), w2)
                 else
                   (Inr (True,
                         if startswith upload_result ''[img]'' \<and> endswith upload_result ''[/img]''
                         then py_slice upload_result 5 (- 6)
                         else upload_result),
                    print [S ''Poster uploaded successfully: '', S upload_result] w2)))"

text \<open>
  Lines 138 to 142: the directory is the argument or \<^verbatim>\<open>tempfile.gettempdir()\<close>, which
  can raise; the file name is built from \<^verbatim>\<open>id(poster_url)\<close>.
\<close>

definition resolve_temp_dir :: "env \<Rightarrow> string option \<Rightarrow> pyexn + string" where
  "resolve_temp_dir env temp_dir =
     (case temp_dir of None \<Rightarrow> gettempdir env | Some d \<Rightarrow> Inr d)"

definition poster_temp_path :: "env \<Rightarrow> pyval \<Rightarrow> string \<Rightarrow> string" where
  "poster_temp_path env poster_url temp_dir =
     os_path_join temp_dir (''poster_'' @ str_nat (obj_id env poster_url) @ ''.jpg'')"

text \<open>
  The whole \<^verbatim>\<open>try\<close> body. The second component is the value of the variable
  \<^verbatim>\<open>temp_file_path\<close> when the body is left: \<open>None\<close> if \<^verbatim>\<open>tempfile.gettempdir()\<close> raised
  before the assignment.
\<close>

definition process_poster_try ::
  "env \<Rightarrow> pyval \<Rightarrow> string \<Rightarrow> string \<Rightarrow> string option \<Rightarrow> world
     \<Rightarrow> (pyexn + bool \<times> string) \<times> string option \<times> world" where
  "process_poster_try env poster_url picture_bed_api_url picture_bed_api_token temp_dir w =
     (case resolve_temp_dir env temp_dir of
        Inl e \<Rightarrow> (Inl e, None, w)
      | Inr dir \<Rightarrow>
          (let temp_file_path = poster_temp_path env poster_url dir
           in case process_poster_steps env poster_url picture_bed_api_url picture_bed_api_token
                     temp_file_path w of
                (r, w1) \<Rightarrow> (r, Some temp_file_path, w1)))"

text \<open>
  The \<^verbatim>\<open>finally\<close> block. \<open>Some e\<close> in the first component: the block raised \<open>e\<close>.
\<close>

definition cleanup :: "env \<Rightarrow> string option \<Rightarrow> world \<Rightarrow> pyexn option \<times> world" where
  "cleanup env temp_file_path w =
     (case temp_file_path of
        None \<Rightarrow> (None, w)
      | Some p \<Rightarrow>
          if p \<noteq> [] \<and> os_path_exists w p then
            (case os_remove env p w of
               (Inr u, w1) \<Rightarrow> (None, print [S ''Temporary poster file deleted: '', S p] w1)
             | (Inl e, w1) \<Rightarrow>
                 if isinstance e HException then
                   (None, print [S ''Warning: Failed to delete temporary poster file: '',
                                 S (exn_msg e)] w1)
                 else (Some e, w1))
          else (None, w))"

text \<open>
  \<^verbatim>\<open>process_poster\<close>: the body, the clause \<^verbatim>\<open>except Exception\<close>, then the \<^verbatim>\<open>finally\<close>
  block, which keeps the pending result unless it raises itself.
\<close>

definition process_poster ::
  "env \<Rightarrow> pyval \<Rightarrow> string \<Rightarrow> string \<Rightarrow> string option \<Rightarrow> world
     \<Rightarrow> (pyexn + bool \<times> string) \<times> world" where
  "process_poster env poster_url picture_bed_api_url picture_bed_api_token temp_dir w =
     (case process_poster_try env poster_url picture_bed_api_url picture_bed_api_token temp_dir w of
        (r, temp_file_path, w1) \<Rightarrow>
          (case (case r of
                   Inr x \<Rightarrow> (Inr x, w1)
                 | Inl e \<Rightarrow>
                     if isinstance e HException then
                       (Inr (False, ''Error during poster processing: '' @ exn_msg e),
                        print [S ''Error during poster processing: '', S (exn_msg e)] w1)
                     else (Inl e, w1)) of
             (r2, w2) \<Rightarrow>
               (case cleanup env temp_file_path w2 of
                  (None, w3) \<Rightarrow> (r2, w3)
                | (Some e, w3) \<Rightarrow> (Inl e, w3))))"


section \<open>Notions used to state the properties\<close>


text \<open>A world with no file, no request issued and nothing printed.\<close>

definition world0 :: world where
  "world0 = \<lparr>fs = Map.empty, requests = [], stdout = []\<rparr>"

text \<open>
  A sample environment: every download answers 200 with three chunks, the middle one
  empty; no file-system call is refused; the uploader answers with bracketed markup.
\<close>

definition env_ok :: env where
  "env_ok =
     \<lparr>http_get = (\<lambda>rq. Inr \<lparr>status_code = 200, chunks = [''ab'', [], ''cd''],
                                stream_error = None\<rparr>),
      makedirs_error = (\<lambda>name. None),
      open_error = (\<lambda>path. None),
      write_error = (\<lambda>path c. None),
      remove_error = (\<lambda>path. None),
      upload_picture = (\<lambda>url token path w. (Inr (True, ''[img]https://host/x.png[/img]''), w)),
      gettempdir = Inr ''/tmp'',
      obj_id = (\<lambda>v. 7)\<rparr>"

text \<open>The same environment, except that the operating system refuses every deletion.\<close>

definition env_locked :: env where
  "env_locked =
     env_ok\<lparr>remove_error := (\<lambda>path. Some (raise_exn IOError ''[Errno 13] Permission denied''))\<rparr>"

declare str_nat.simps [simp del]

lemmas run_defs = process_poster_def process_poster_try_def process_poster_steps_def
  resolve_temp_dir_def poster_temp_path_def os_path_join_def cleanup_def os_remove_def
  os_path_exists_def download_poster_def download_poster_try_def requests_get_def
  os_makedirs_def os_path_dirname_def save_stream_def open_wb_def file_write_def
  print_def startswith_def endswith_def py_slice_def py_index_def raise_exn_def
  env_ok_def world0_def str_nat.simps digit_char_def suffix_to_prefix Let_def

section \<open>The field extractor follows the priority order\<close>










section \<open>The field extractor can raise\<close>

text \<open>
  Claim C6 says that \<^verbatim>\<open>get_poster_url_from_data\<close> has no error path: also when the
  value under \<^verbatim>\<open>data\<close> is not a mapping, it completes without raising and returns the
  empty string. The code does not do that. For the mapping \<^verbatim>\<open>{"data": None}\<close> no
  top-level field matches, \<^verbatim>\<open>'data' in data\<close> holds, and the test
  \<^verbatim>\<open>field in data['data']\<close> of line 36 raises \<^verbatim>\<open>TypeError\<close>, which nothing catches.
\<close>

theorem get_poster_url_from_data_null_data_raises:
  "fst (get_poster_url_from_data [(''data'', PNone)] world0)
     = Inl (raise_exn TypeError ''argument of type 'NoneType' is not iterable'')"
  by (simp add: get_poster_url_from_data_def possible_fields_def)

section \<open>Downloader: results and failures\<close>

text \<open>
  Claim C7. Given the empty poster URL, \<^verbatim>\<open>download_poster\<close> returns the failure
  \<^verbatim>\<open>(False, 'Poster URL is empty')\<close> and leaves the world as it found it: in particular
  no HTTP request is issued.
\<close>

theorem download_poster_empty_url:
  "download_poster env (PStr []) save_path w = (Inr (False, ''Poster URL is empty''), w)
   \<and> requests (snd (download_poster env (PStr []) save_path w)) = requests w"
  by (simp add: download_poster_def download_poster_try_def)

text \<open>
  Claim C8. When the network answers the request with a status code other than 200,
  \<^verbatim>\<open>download_poster\<close> returns a failure whose message ends with that status code in
  decimal, and the file system is left unchanged: the destination is not written.
\<close>

theorem download_poster_bad_status:
  assumes "truthy poster_url"
    and "http_get env \<lparr>req_url = poster_url, req_headers = headers, req_timeout = 30,
                         req_stream = True\<rparr> = Inr resp"
    and "status_code resp \<noteq> 200"
  shows "fst (download_poster env poster_url save_path w)
           = Inr (False, ''Failed to download poster, status code: '' @ str_int (status_code resp))
         \<and> fs (snd (download_poster env poster_url save_path w)) = fs w"
  using assms
  by (simp add: download_poster_def download_poster_try_def requests_get_def print_def)

text \<open>A server that answers 404.\<close>

theorem download_poster_bad_status_witness:
  "fst (download_poster
          (env_ok\<lparr>http_get := (\<lambda>rq. Inr \<lparr>status_code = 404, chunks = [''nf''],
                                           stream_error = None\<rparr>)\<rparr>)
          (PStr ''http://a/b.jpg'') ''/tmp/b.jpg'' world0)
     = Inr (False, ''Failed to download poster, status code: 404'')
   \<and> fs (snd (download_poster
          (env_ok\<lparr>http_get := (\<lambda>rq. Inr \<lparr>status_code = 404, chunks = [''nf''],
                                           stream_error = None\<rparr>)\<rparr>)
          (PStr ''http://a/b.jpg'') ''/tmp/b.jpg'' world0)) = fs world0"
  using download_poster_bad_status [of "PStr ''http://a/b.jpg''"
      "env_ok\<lparr>http_get := (\<lambda>rq. Inr \<lparr>status_code = 404, chunks = [''nf''],
                                       stream_error = None\<rparr>)\<rparr>"
      "\<lparr>status_code = 404, chunks = [''nf''], stream_error = None\<rparr>" "''/tmp/b.jpg''" world0]
  by (simp add: env_ok_def str_int_def str_nat.simps digit_char_def)

lemma download_poster_returns:
  "\<exists>b m w1. download_poster env poster_url save_path w = (Inr (b, m), w1)"
  by (cases "download_poster_try env poster_url save_path w")
     (auto simp: download_poster_def split: sum.splits)

text \<open>
  Claim C4. \<^verbatim>\<open>download_poster\<close> always returns a pair and never lets an exception
  reach its caller. Whenever its body raises, the result is a failure whose message is
  chosen by the class of the exception: the timeout message for a \<^verbatim>\<open>Timeout\<close>, the
  request-error message for any other \<^verbatim>\<open>RequestException\<close>, the save-file message for
  any other \<^verbatim>\<open>IOError\<close>, and the generic message for everything else. The four
  messages are pairwise different, whatever the texts of the exceptions.
\<close>

theorem download_poster_never_raises:
  "(\<exists>b m. fst (download_poster env poster_url save_path w) = Inr (b, m))
   \<and> (\<forall>e w1. download_poster_try env poster_url save_path w = (Inl e, w1) \<longrightarrow>
         fst (download_poster env poster_url save_path w) =
           Inr (False,
                case exn_class e of
                  Timeout \<Rightarrow> ''Poster download timeout (30s)''
                | RequestException \<Rightarrow> ''Poster download request error: '' @ exn_msg e
                | IOError \<Rightarrow> ''Failed to save poster file: '' @ exn_msg e
                | other \<Rightarrow> ''Unexpected error: '' @ exn_msg e))
   \<and> (\<forall>m1 m2 m3.
         ''Poster download timeout (30s)'' \<noteq> ''Poster download request error: '' @ m1
       \<and> ''Poster download timeout (30s)'' \<noteq> ''Failed to save poster file: '' @ m2
       \<and> ''Poster download timeout (30s)'' \<noteq> ''Unexpected error: '' @ m3
       \<and> ''Poster download request error: '' @ m1 \<noteq> ''Failed to save poster file: '' @ m2
       \<and> ''Poster download request error: '' @ m1 \<noteq> ''Unexpected error: '' @ m3
       \<and> ''Failed to save poster file: '' @ m2 \<noteq> ''Unexpected error: '' @ m3)"
proof (intro conjI allI impI)
  from download_poster_returns [of env poster_url save_path w]
  show "\<exists>b m. fst (download_poster env poster_url save_path w) = Inr (b, m)"
    by auto
next
  fix e w1
  assume "download_poster_try env poster_url save_path w = (Inl e, w1)"
  then show "fst (download_poster env poster_url save_path w) =
           Inr (False,
                case exn_class e of
                  Timeout \<Rightarrow> ''Poster download timeout (30s)''
                | RequestException \<Rightarrow> ''Poster download request error: '' @ exn_msg e
                | IOError \<Rightarrow> ''Failed to save poster file: '' @ exn_msg e
                | other \<Rightarrow> ''Unexpected error: '' @ exn_msg e)"
    by (cases "exn_class e") (simp_all add: download_poster_def)
qed simp_all

text \<open>
  Four runs: the request times out, the connection is refused, the disk is full while
  the chunks are written, and the request fails with an exception of another class.
\<close>

theorem download_poster_never_raises_witness:
  "fst (download_poster
          (env_ok\<lparr>http_get := (\<lambda>rq. Inl (raise_exn Timeout ''read timed out''))\<rparr>)
          (PStr ''http://a/b.jpg'') ''/tmp/b.jpg'' world0)
     = Inr (False, ''Poster download timeout (30s)'')
   \<and> fst (download_poster
          (env_ok\<lparr>http_get := (\<lambda>rq. Inl (raise_exn RequestException ''connection refused''))\<rparr>)
          (PStr ''http://a/b.jpg'') ''/tmp/b.jpg'' world0)
     = Inr (False, ''Poster download request error: connection refused'')
   \<and> fst (download_poster
          (env_ok\<lparr>write_error :=
                    (\<lambda>path c. Some (raise_exn IOError ''[Errno 28] No space left on device''))\<rparr>)
          (PStr ''http://a/b.jpg'') ''/tmp/b.jpg'' world0)
     = Inr (False, ''Failed to save poster file: [Errno 28] No space left on device'')
   \<and> fst (download_poster
          (env_ok\<lparr>http_get := (\<lambda>rq. Inl (raise_exn OtherException ''boom''))\<rparr>)
          (PStr ''http://a/b.jpg'') ''/tmp/b.jpg'' world0)
     = Inr (False, ''Unexpected error: boom'')"
proof -
  let ?t = "env_ok\<lparr>http_get := (\<lambda>rq. Inl (raise_exn Timeout ''read timed out''))\<rparr>"
  let ?r = "env_ok\<lparr>http_get := (\<lambda>rq. Inl (raise_exn RequestException ''connection refused''))\<rparr>"
  let ?i = "env_ok\<lparr>write_error :=
              (\<lambda>path c. Some (raise_exn IOError ''[Errno 28] No space left on device''))\<rparr>"
  let ?o = "env_ok\<lparr>http_get := (\<lambda>rq. Inl (raise_exn OtherException ''boom''))\<rparr>"
  let ?u = "PStr ''http://a/b.jpg''"
  have t: "download_poster_try ?t ?u ''/tmp/b.jpg'' world0
        = (Inl (raise_exn Timeout ''read timed out''),
           snd (download_poster_try ?t ?u ''/tmp/b.jpg'' world0))"
    by (simp add: download_poster_try_def requests_get_def env_ok_def)
  have r: "download_poster_try ?r ?u ''/tmp/b.jpg'' world0
        = (Inl (raise_exn RequestException ''connection refused''),
           snd (download_poster_try ?r ?u ''/tmp/b.jpg'' world0))"
    by (simp add: download_poster_try_def requests_get_def env_ok_def)
  have i: "download_poster_try ?i ?u ''/tmp/b.jpg'' world0
        = (Inl (raise_exn IOError ''[Errno 28] No space left on device''),
           snd (download_poster_try ?i ?u ''/tmp/b.jpg'' world0))"
    by (simp add: run_defs)
  have o: "download_poster_try ?o ?u ''/tmp/b.jpg'' world0
        = (Inl (raise_exn OtherException ''boom''),
           snd (download_poster_try ?o ?u ''/tmp/b.jpg'' world0))"
    by (simp add: download_poster_try_def requests_get_def env_ok_def)
  have "fst (download_poster ?t ?u ''/tmp/b.jpg'' world0)
          = Inr (False, ''Poster download timeout (30s)'')"
    using conjunct1 [OF conjunct2 [OF download_poster_never_raises
                       [of ?t ?u "''/tmp/b.jpg''" world0]], rule_format, OF t]
    by (simp add: raise_exn_def)
  moreover
  have "fst (download_poster ?r ?u ''/tmp/b.jpg'' world0)
          = Inr (False, ''Poster download request error: connection refused'')"
    using conjunct1 [OF conjunct2 [OF download_poster_never_raises
                       [of ?r ?u "''/tmp/b.jpg''" world0]], rule_format, OF r]
    by (simp add: raise_exn_def)
  moreover
  have "fst (download_poster ?i ?u ''/tmp/b.jpg'' world0)
          = Inr (False, ''Failed to save poster file: [Errno 28] No space left on device'')"
    using conjunct1 [OF conjunct2 [OF download_poster_never_raises
                       [of ?i ?u "''/tmp/b.jpg''" world0]], rule_format, OF i]
    by (simp add: raise_exn_def)
  moreover
  have "fst (download_poster ?o ?u ''/tmp/b.jpg'' world0)
          = Inr (False, ''Unexpected error: boom'')"
    using conjunct1 [OF conjunct2 [OF download_poster_never_raises
                       [of ?o ?u "''/tmp/b.jpg''" world0]], rule_format, OF o]
    by (simp add: raise_exn_def)
  ultimately show ?thesis by simp
qed

lemma os_path_dirname_bare: "CHR ''/'' \<notin> set p \<Longrightarrow> os_path_dirname p = []"
proof -
  assume "CHR ''/'' \<notin> set p"
  then have "dropWhile (\<lambda>c. c \<noteq> CHR ''/'') (rev p) = []"
    by (auto simp: dropWhile_eq_Nil_conv)
  then show ?thesis
    by (simp add: os_path_dirname_def)
qed

lemma os_path_dirname_slash: "CHR ''/'' \<in> set p \<Longrightarrow> os_path_dirname p \<noteq> []"
proof -
  assume m: "CHR ''/'' \<in> set p"
  define head where "head = rev (dropWhile (\<lambda>c. c \<noteq> CHR ''/'') (rev p))"
  from m have "\<not> (\<forall>c\<in>set (rev p). c \<noteq> CHR ''/'')"
    by simp
  then have "dropWhile (\<lambda>c. c \<noteq> CHR ''/'') (rev p) \<noteq> []"
    unfolding dropWhile_eq_Nil_conv .
  then have h: "head \<noteq> []"
    by (simp add: head_def)
  have d: "os_path_dirname p =
      (if head \<noteq> [] \<and> head \<noteq> replicate (length head) (CHR ''/'')
       then rev (dropWhile (\<lambda>c. c = CHR ''/'') (rev head)) else head)"
    unfolding os_path_dirname_def head_def Let_def ..
  show ?thesis
  proof (cases "head = replicate (length head) (CHR ''/'')")
    case True
    with h d show ?thesis by simp
  next
    case False
    then have "\<exists>c\<in>set head. c \<noteq> CHR ''/''"
      by (metis replicate_eqI)
    then have "\<not> (\<forall>c\<in>set (rev head). c = CHR ''/'')"
      by simp
    then have "dropWhile (\<lambda>c. c = CHR ''/'') (rev head) \<noteq> []"
      unfolding dropWhile_eq_Nil_conv .
    with h d False show ?thesis by simp
  qed
qed

text \<open>
  Claim C10. For a destination whose parent directory name is the empty string (which
  by \<open>os_path_dirname_bare\<close> and \<open>os_path_dirname_slash\<close> means a bare file name, one
  without a slash), a non-empty URL and an answer with status
  200, \<^verbatim>\<open>download_poster\<close> fails through the \<^verbatim>\<open>except IOError\<close> clause, with the message
  of the \<^verbatim>\<open>FileNotFoundError\<close> that \<^verbatim>\<open>os.makedirs('')\<close> raises, and nothing is written.
\<close>

theorem download_poster_bare_filename:
  assumes "truthy poster_url"
    and "http_get env \<lparr>req_url = poster_url, req_headers = headers, req_timeout = 30,
                         req_stream = True\<rparr> = Inr resp"
    and "status_code resp = 200"
    and "os_path_dirname save_path = []"
  shows "fst (download_poster env poster_url save_path w)
           = Inr (False, ''Failed to save poster file: [Errno 2] No such file or directory: ''
                           @ [CHR 0x27, CHR 0x27])
         \<and> fs (snd (download_poster env poster_url save_path w)) = fs w"
  using assms
  by (simp add: download_poster_def download_poster_try_def requests_get_def print_def
        os_makedirs_def raise_exn_def)

theorem download_poster_bare_filename_witness:
  "os_path_dirname ''poster_7.jpg'' = []
   \<and> fst (download_poster env_ok (PStr ''http://a/b.jpg'') ''poster_7.jpg'' world0)
       = Inr (False, ''Failed to save poster file: [Errno 2] No such file or directory: ''
                       @ [CHR 0x27, CHR 0x27])
   \<and> fs (snd (download_poster env_ok (PStr ''http://a/b.jpg'') ''poster_7.jpg'' world0))
       = fs world0"
  using download_poster_bare_filename [of "PStr ''http://a/b.jpg''" env_ok
      "\<lparr>status_code = 200, chunks = [''ab'', [], ''cd''], stream_error = None\<rparr>"
      "''poster_7.jpg''" world0]
  by (simp add: env_ok_def os_path_dirname_def)

section \<open>Orchestrator: result, markup and cleanup\<close>

lemma cleanup_returns: "fst (cleanup env t w) = None"
  by (auto simp: cleanup_def split: option.splits prod.splits sum.splits)

text \<open>The result of \<^verbatim>\<open>process_poster\<close> is fixed before the \<^verbatim>\<open>finally\<close> block runs.\<close>

lemma process_poster_result:
  "fst (process_poster env url api tok tmp w) =
     (case fst (process_poster_try env url api tok tmp w) of
        Inr x \<Rightarrow> Inr x
      | Inl e \<Rightarrow> Inr (False, ''Error during poster processing: '' @ exn_msg e))"
proof -
  obtain r t w1 where a: "process_poster_try env url api tok tmp w = (r, t, w1)"
    by (cases "process_poster_try env url api tok tmp w") auto
  show ?thesis
  proof (cases r)
    case (Inl e)
    obtain c w3 where
      "cleanup env t (print [S ''Error during poster processing: '', S (exn_msg e)] w1) = (c, w3)"
      by (cases "cleanup env t (print [S ''Error during poster processing: '', S (exn_msg e)] w1)")
         auto
    moreover from this have "c = None"
      using cleanup_returns
              [of env t "print [S ''Error during poster processing: '', S (exn_msg e)] w1"]
      by simp
    ultimately show ?thesis
      using a Inl by (simp add: process_poster_def)
  next
    case (Inr x)
    obtain c w3 where "cleanup env t w1 = (c, w3)"
      by (cases "cleanup env t w1") auto
    moreover from this have "c = None"
      using cleanup_returns [of env t w1] by simp
    ultimately show ?thesis
      using a Inr by (simp add: process_poster_def)
  qed
qed

lemma process_poster_world:
  "snd (process_poster env url api tok tmp w) =
     (case process_poster_try env url api tok tmp w of
        (Inr x, t, w1) \<Rightarrow> snd (cleanup env t w1)
      | (Inl e, t, w1) \<Rightarrow>
          snd (cleanup env t
                 (print [S ''Error during poster processing: '', S (exn_msg e)] w1)))"
proof -
  obtain r t w1 where a: "process_poster_try env url api tok tmp w = (r, t, w1)"
    by (cases "process_poster_try env url api tok tmp w") auto
  show ?thesis
  proof (cases r)
    case (Inl e)
    obtain c w3 where
      "cleanup env t (print [S ''Error during poster processing: '', S (exn_msg e)] w1) = (c, w3)"
      by (cases "cleanup env t (print [S ''Error during poster processing: '', S (exn_msg e)] w1)")
         auto
    moreover from this have "c = None"
      using cleanup_returns
              [of env t "print [S ''Error during poster processing: '', S (exn_msg e)] w1"]
      by simp
    ultimately show ?thesis
      using a Inl by (simp add: process_poster_def)
  next
    case (Inr x)
    obtain c w3 where "cleanup env t w1 = (c, w3)"
      by (cases "cleanup env t w1") auto
    moreover from this have "c = None"
      using cleanup_returns [of env t w1] by simp
    ultimately show ?thesis
      using a Inr by (simp add: process_poster_def)
  qed
qed

text \<open>
  A string that starts with \<^verbatim>\<open>[img]\<close> and ends with \<^verbatim>\<open>[/img]\<close> has both around a
  middle part: the two markers cannot overlap.
\<close>

lemma bracketed_form:
  assumes "prefix ''[img]'' s" and "suffix ''[/img]'' s"
  shows "\<exists>u. s = ''[img]'' @ u @ ''[/img]''"
proof -
  from assms(1) obtain t where t: "s = ''[img]'' @ t"
    by (auto simp: prefix_def)
  from assms(2) obtain zs where zs: "s = zs @ ''[/img]''"
    by (auto simp: suffix_def)
  from t zs have "''[img]'' @ t = zs @ ''[/img]''"
    by simp
  then obtain us where
    "(''[img]'' = zs @ us \<and> us @ t = ''[/img]'') \<or> (''[img]'' @ us = zs \<and> t = us @ ''[/img]'')"
    unfolding append_eq_append_conv2 by blast
  then show ?thesis
  proof
    assume a: "''[img]'' = zs @ us \<and> us @ t = ''[/img]''"
    then have "us = []"
      by (cases us) (auto simp: Cons_eq_append_conv append_eq_Cons_conv)
    with a t show ?thesis by auto
  next
    assume "''[img]'' @ us = zs \<and> t = us @ ''[/img]''"
    with t show ?thesis by auto
  qed
qed

lemma slice_between: "drop (length p) (take (length p + length u) (p @ u @ q)) = u"
  by simp

lemma py_slice_bracketed: "py_slice (''[img]'' @ u @ ''[/img]'') 5 (- 6) = u"
proof -
  have a: "py_index (length (''[img]'' @ u @ ''[/img]'')) 5 = length ''[img]''"
    by (simp add: py_index_def)
  have b: "py_index (length (''[img]'' @ u @ ''[/img]'')) (- 6) = length ''[img]'' + length u"
    by (simp add: py_index_def)
  show ?thesis
    unfolding py_slice_def a b by (rule slice_between)
qed

text \<open>
  Claim C3. Suppose the temp directory is resolved, the download into the temp file
  succeeds and the uploader then returns success with the string \<open>s\<close>. If \<open>s\<close> starts
  with \<^verbatim>\<open>[img]\<close> and ends with \<^verbatim>\<open>[/img]\<close>, then \<open>s\<close> is \<^verbatim>\<open>[img]\<close>, a middle part and
  \<^verbatim>\<open>[/img]\<close>, and \<^verbatim>\<open>process_poster\<close> returns success with the middle part: the 5
  leading and the 6 trailing characters are stripped. Otherwise it returns success with
  \<open>s\<close> unchanged.
\<close>

theorem process_poster_unwraps_markup:
  assumes "resolve_temp_dir env temp_dir = Inr dir"
    and "download_poster env poster_url (poster_temp_path env poster_url dir)
           (print [S ''Temp file path: '', S (poster_temp_path env poster_url dir)]
             (print [S ''Poster URL: '', V poster_url]
               (print [S ''=== Starting poster processing ===''] w)))
         = (Inr (True, r), w1)"
    and "upload_picture env api tok (poster_temp_path env poster_url dir)
           (print [S ''Uploading poster to image hosting service...''] w1)
         = (Inr (True, s), w2)"
  shows "(startswith s ''[img]'' \<and> endswith s ''[/img]'' \<longrightarrow>
            (\<exists>u. s = ''[img]'' @ u @ ''[/img]''
                 \<and> fst (process_poster env poster_url api tok temp_dir w) = Inr (True, u)))
         \<and> (\<not> (startswith s ''[img]'' \<and> endswith s ''[/img]'') \<longrightarrow>
              fst (process_poster env poster_url api tok temp_dir w) = Inr (True, s))"
proof -
  have res: "fst (process_poster env poster_url api tok temp_dir w) =
      Inr (True, if startswith s ''[img]'' \<and> endswith s ''[/img]''
                 then py_slice s 5 (- 6) else s)"
    using assms
    by (simp add: process_poster_result process_poster_try_def process_poster_steps_def)
  show ?thesis
  proof (intro conjI impI)
    assume b: "startswith s ''[img]'' \<and> endswith s ''[/img]''"
    then obtain u where u: "s = ''[img]'' @ u @ ''[/img]''"
      using bracketed_form [of s] by (auto simp: startswith_def endswith_def)
    have "py_slice s 5 (- 6) = u"
      unfolding u by (rule py_slice_bracketed)
    with res b u show "\<exists>u. s = ''[img]'' @ u @ ''[/img]''
                 \<and> fst (process_poster env poster_url api tok temp_dir w) = Inr (True, u)"
      by auto
  next
    assume "\<not> (startswith s ''[img]'' \<and> endswith s ''[/img]'')"
    with res show "fst (process_poster env poster_url api tok temp_dir w) = Inr (True, s)"
      by simp
  qed
qed

text \<open>
  The uploader of \<open>env_ok\<close> answers \<^verbatim>\<open>[img]https://host/x.png[/img]\<close>; the run returns
  \<^verbatim>\<open>https://host/x.png\<close>.
\<close>

theorem process_poster_unwraps_markup_witness:
  "fst (process_poster env_ok (PStr ''http://a/b.jpg'') ''api'' ''tok'' None world0)
       = Inr (True, ''https://host/x.png'')"
proof -
  let ?p = "poster_temp_path env_ok (PStr ''http://a/b.jpg'') ''/tmp''"
  let ?w = "print [S ''Temp file path: '', S ?p]
             (print [S ''Poster URL: '', V (PStr ''http://a/b.jpg'')]
               (print [S ''=== Starting poster processing ===''] world0))"
  have a: "resolve_temp_dir env_ok None = Inr ''/tmp''"
    by (simp add: resolve_temp_dir_def env_ok_def)
  have b: "download_poster env_ok (PStr ''http://a/b.jpg'') ?p ?w
             = (Inr (True, ?p), snd (download_poster env_ok (PStr ''http://a/b.jpg'') ?p ?w))"
    by (simp add: run_defs)
  have c: "upload_picture env_ok ''api'' ''tok'' ?p
             (print [S ''Uploading poster to image hosting service...'']
               (snd (download_poster env_ok (PStr ''http://a/b.jpg'') ?p ?w)))
           = (Inr (True, ''[img]https://host/x.png[/img]''),
              print [S ''Uploading poster to image hosting service...'']
               (snd (download_poster env_ok (PStr ''http://a/b.jpg'') ?p ?w)))"
    by (simp add: env_ok_def)
  from process_poster_unwraps_markup [OF a b c] show ?thesis
    by (simp add: startswith_def endswith_def suffix_to_prefix)
qed

text \<open>
  Claim C2 as stated (after every run the temp file does not exist) fails. When the
  operating system refuses the deletion, the run still returns success and the
  downloaded file is still there.
\<close>

theorem process_poster_temp_file_survives:
  "fst (process_poster env_locked (PStr ''http://a/b.jpg'') ''api'' ''tok'' None world0)
     = Inr (True, ''https://host/x.png'')
   \<and> fs (snd (process_poster env_locked (PStr ''http://a/b.jpg'') ''api'' ''tok'' None world0))
        ''/tmp/poster_7.jpg'' = Some (File ''abcd'')"
  by (simp add: run_defs env_locked_def)

lemma print_fs: "fs (print l w) = fs w"
  by (simp add: print_def)

lemma poster_temp_path_nonempty: "poster_temp_path env url dir \<noteq> []"
  by (simp add: poster_temp_path_def os_path_join_def)

lemma cleanup_effect:
  assumes "p \<noteq> []"
  shows "\<not> os_path_exists (snd (cleanup env (Some p) w)) p
   \<or> (\<exists>e wb. os_remove env p wb = (Inl e, wb)
         \<and> snd (cleanup env (Some p) w)
             = print [S ''Warning: Failed to delete temporary poster file: '', S (exn_msg e)] wb)"
proof (cases "os_path_exists w p")
  case False
  with assms show ?thesis
    by (simp add: cleanup_def)
next
  case True
  show ?thesis
  proof (cases "os_remove env p w")
    case (Pair r w1)
    show ?thesis
    proof (cases r)
      case (Inl e)
      with Pair have "w1 = w"
        by (auto simp: os_remove_def split: option.splits node.splits)
      with True Pair Inl assms show ?thesis
        by (auto simp: cleanup_def)
    next
      case (Inr u)
      with Pair have "fs w1 p = None"
        by (auto simp: os_remove_def split: option.splits node.splits)
      with True Pair Inr assms show ?thesis
        by (simp add: cleanup_def os_path_exists_def print_fs)
    qed
  qed
qed

text \<open>
  Claim C2, amended. If \<^verbatim>\<open>tempfile.gettempdir()\<close> raises, no temp file is created: the
  file system is unchanged. Otherwise, after the run, either nothing exists at the temp
  path, or the deletion was attempted and raised, and the last thing the run did was to
  print the warning about it.
\<close>

theorem process_poster_temp_file_removed_or_warned:
  "(case resolve_temp_dir env temp_dir of
      Inl e \<Rightarrow> fs (snd (process_poster env poster_url api tok temp_dir w)) = fs w
    | Inr dir \<Rightarrow>
        \<not> os_path_exists (snd (process_poster env poster_url api tok temp_dir w))
            (poster_temp_path env poster_url dir)
        \<or> (\<exists>e wb. os_remove env (poster_temp_path env poster_url dir) wb = (Inl e, wb)
              \<and> snd (process_poster env poster_url api tok temp_dir w)
                  = print [S ''Warning: Failed to delete temporary poster file: '',
                           S (exn_msg e)] wb))"
proof (cases "resolve_temp_dir env temp_dir")
  case (Inl e)
  then show ?thesis
    by (simp add: process_poster_world process_poster_try_def cleanup_def print_fs)
next
  case (Inr dir)
  let ?p = "poster_temp_path env poster_url dir"
  obtain r w1 where s: "process_poster_steps env poster_url api tok ?p w = (r, w1)"
    by (cases "process_poster_steps env poster_url api tok ?p w") auto
  have "\<exists>wm. snd (process_poster env poster_url api tok temp_dir w)
               = snd (cleanup env (Some ?p) wm)"
    using Inr s by (cases r) (auto simp: process_poster_world process_poster_try_def)
  then obtain wm where
    "snd (process_poster env poster_url api tok temp_dir w) = snd (cleanup env (Some ?p) wm)"
    by blast
  with cleanup_effect [where p = ?p and env = env and w = wm, OF poster_temp_path_nonempty] Inr
  show ?thesis by simp
qed

text \<open>
  With \<open>env_ok\<close> the download writes the temp file, and after the whole run nothing
  exists at its path.
\<close>

theorem process_poster_temp_file_removed_or_warned_witness:
  "resolve_temp_dir env_ok None = Inr ''/tmp''
   \<and> poster_temp_path env_ok (PStr ''http://a/b.jpg'') ''/tmp'' = ''/tmp/poster_7.jpg''
   \<and> fs (snd (download_poster env_ok (PStr ''http://a/b.jpg'') ''/tmp/poster_7.jpg'' world0))
        ''/tmp/poster_7.jpg'' = Some (File ''abcd'')
   \<and> \<not> os_path_exists
          (snd (process_poster env_ok (PStr ''http://a/b.jpg'') ''api'' ''tok'' None world0))
          ''/tmp/poster_7.jpg''"
  using process_poster_temp_file_removed_or_warned
          [where env = env_ok and temp_dir = None and poster_url = "PStr ''http://a/b.jpg''"
             and api = "''api''" and tok = "''tok''" and w = world0]
  by (simp add: run_defs)

text \<open>Nothing before the \<^verbatim>\<open>finally\<close> block depends on whether deletions are refused.\<close>

lemma file_write_remove_error:
  "file_write (env\<lparr>remove_error := r\<rparr>) p c w = file_write env p c w"
  by (simp add: file_write_def split: option.splits node.splits)

lemma write_chunks_remove_error:
  "write_chunks (env\<lparr>remove_error := r\<rparr>) p cs w = write_chunks env p cs w"
  by (induction cs arbitrary: w)
     (simp_all add: file_write_remove_error split: prod.splits sum.splits)

lemma save_stream_remove_error:
  "save_stream (env\<lparr>remove_error := r\<rparr>) p resp w = save_stream env p resp w"
  by (simp add: save_stream_def open_wb_def write_chunks_remove_error
        split: prod.splits sum.splits option.splits node.splits)

lemma os_makedirs_remove_error:
  "os_makedirs (env\<lparr>remove_error := r\<rparr>) d w = os_makedirs env d w"
  by (simp add: os_makedirs_def split: option.splits node.splits)

lemma download_poster_try_remove_error:
  "download_poster_try (env\<lparr>remove_error := r\<rparr>) url p w = download_poster_try env url p w"
  by (simp add: download_poster_try_def requests_get_def os_makedirs_remove_error
        save_stream_remove_error Let_def split: prod.splits sum.splits)

lemma download_poster_remove_error:
  "download_poster (env\<lparr>remove_error := r\<rparr>) url p w = download_poster env url p w"
  by (simp add: download_poster_def download_poster_try_remove_error)

lemma process_poster_steps_remove_error:
  "process_poster_steps (env\<lparr>remove_error := r\<rparr>) url api tok p w
     = process_poster_steps env url api tok p w"
  by (simp add: process_poster_steps_def download_poster_remove_error
        split: prod.splits sum.splits)

lemma process_poster_try_remove_error:
  "process_poster_try (env\<lparr>remove_error := r\<rparr>) url api tok tmp w
     = process_poster_try env url api tok tmp w"
  by (simp add: process_poster_try_def resolve_temp_dir_def
        poster_temp_path_def process_poster_steps_remove_error
        split: option.splits sum.splits)

text \<open>
  Claim C5. Whatever the network, the file system and the uploader do, raising
  included, \<^verbatim>\<open>process_poster\<close> returns a pair of a bool and a string and raises nothing.
  The pair is the one the body and its \<^verbatim>\<open>except\<close> clause produced before the cleanup,
  and it is the same whether or not the operating system refuses the deletion of the
  temp file: a failed deletion changes neither the flag nor the message.
\<close>

theorem process_poster_never_raises:
  "(\<exists>b m. fst (process_poster env poster_url api tok temp_dir w) = Inr (b, m))
   \<and> fst (process_poster env poster_url api tok temp_dir w) =
       (case fst (process_poster_try env poster_url api tok temp_dir w) of
          Inr x \<Rightarrow> Inr x
        | Inl e \<Rightarrow> Inr (False, ''Error during poster processing: '' @ exn_msg e))
   \<and> fst (process_poster (env\<lparr>remove_error := r\<rparr>) poster_url api tok temp_dir w)
       = fst (process_poster env poster_url api tok temp_dir w)"
proof (intro conjI)
  show "\<exists>b m. fst (process_poster env poster_url api tok temp_dir w) = Inr (b, m)"
    by (cases "fst (process_poster_try env poster_url api tok temp_dir w)")
       (auto simp: process_poster_result)
next
  show "fst (process_poster env poster_url api tok temp_dir w) =
       (case fst (process_poster_try env poster_url api tok temp_dir w) of
          Inr x \<Rightarrow> Inr x
        | Inl e \<Rightarrow> Inr (False, ''Error during poster processing: '' @ exn_msg e))"
    by (rule process_poster_result)
next
  show "fst (process_poster (env\<lparr>remove_error := r\<rparr>) poster_url api tok temp_dir w)
       = fst (process_poster env poster_url api tok temp_dir w)"
    by (simp add: process_poster_result process_poster_try_remove_error)
qed

section \<open>Convenience wrapper\<close>









end
